theory Spec2Isabelle
  imports Main "HOL-Library.AList"
begin

section \<open>Python strings and integers\<close>

text \<open>
  \<^verbatim>\<open>path.strip('/')\<close> removes every leading and every trailing slash;
  \<^verbatim>\<open>path.split('/')[0]\<close> is the text before the first slash (the whole string when
  there is none).
\<close>

definition strip_slash :: "string \<Rightarrow> string" where
  "strip_slash s =
     rev (dropWhile (\<lambda>c. c = CHR ''/'') (rev (dropWhile (\<lambda>c. c = CHR ''/'') s)))"

definition split_first :: "string \<Rightarrow> string" where
  "split_first s = takeWhile (\<lambda>c. c \<noteq> CHR ''/'') s"

text \<open>Formatting an unbounded Python int inside an f-string: decimal, with a sign.\<close>

fun str_nat :: "nat \<Rightarrow> string" where
  "str_nat n =
     (if n < 10 then [''0123456789'' ! n]
      else str_nat (n div 10) @ [''0123456789'' ! (n mod 10)])"

declare str_nat.simps [simp del]

definition str_int :: "int \<Rightarrow> string" where
  "str_int i = (if i < 0 then CHR ''-'' # str_nat (nat (- i)) else str_nat (nat i))"

section \<open>Configuration read from the environment\<close>

text \<open>
  The module-level constants of \<^verbatim>\<open>main.py\<close>, after \<^verbatim>\<open>int(os.getenv(...))\<close> has
  succeeded. \<^verbatim>\<open>SUBAPP_PORTS\<close> is a dict literal; a Python dict keeps insertion order, so it
  is an association list with the three keys in the order of the literal.
\<close>

record config =
  MAIN_APP_PORT :: int
  SUBAPP1_PORT :: int
  SUBAPP2_PORT :: int
  DOCKER_COMPOSE_FILE :: string
  SCALING_FACTOR :: int
  HEALTH_CHECK_INTERVAL :: int
  ALERT_EMAIL :: string
  SMTP_SERVER :: string
  SMTP_PORT :: int
  SMTP_USERNAME :: string
  SMTP_PASSWORD :: string

definition default_config :: config where
  "default_config =
     \<lparr>MAIN_APP_PORT = 8000, SUBAPP1_PORT = 8001, SUBAPP2_PORT = 8002,
      DOCKER_COMPOSE_FILE = ''docker-compose.yml'', SCALING_FACTOR = 1,
      HEALTH_CHECK_INTERVAL = 60, ALERT_EMAIL = ''admin@example.com'',
      SMTP_SERVER = ''smtp.example.com'', SMTP_PORT = 587,
      SMTP_USERNAME = ''username'', SMTP_PASSWORD = ''password''\<rparr>"

type_synonym port_table = "(string \<times> int) list"

definition SUBAPP_PORTS :: "config \<Rightarrow> port_table" where
  "SUBAPP_PORTS cfg =
     [(''main'', MAIN_APP_PORT cfg),
      (''subapp1'', SUBAPP1_PORT cfg),
      (''subapp2'', SUBAPP2_PORT cfg)]"

section \<open>The fleet manifest\<close>

text \<open>
  The nested dict that \<^verbatim>\<open>generate_docker_compose\<close> builds for one service and for
  the whole file, field by field.
\<close>

record restart_policy =
  rp_condition :: string
  rp_delay :: string
  rp_max_attempts :: int
  rp_window :: string

record deploy =
  dp_replicas :: int
  dp_restart_policy :: restart_policy

record healthcheck =
  hc_test :: "string list"
  hc_interval :: string
  hc_timeout :: string
  hc_retries :: int
  hc_start_period :: string

record service =
  svc_build :: string
  svc_ports :: "string list"
  svc_deploy :: deploy
  svc_healthcheck :: healthcheck

record compose =
  cmp_version :: string
  cmp_services :: "(string \<times> service) list"

record email =
  mail_subject :: string
  mail_from :: string
  mail_to :: string
  mail_content :: string

section \<open>The outside world\<close>

text \<open>
  What the program does to the outside is recorded as a list of events, in order. What the
  outside answers is a parameter: a function from the call and the state of the world to
  an outcome and the next state of the world.
\<close>

record request =
  req_method :: string
  req_path :: string
  req_body :: string
  req_headers :: "(string \<times> string) list"

text \<open>
  The arguments of one call into the \<^verbatim>\<open>requests\<close> package. \<^verbatim>\<open>requests.get(url)\<close>
  passes the URL alone: the method is GET, and \<^verbatim>\<open>data\<close>, \<^verbatim>\<open>headers\<close> and
  \<^verbatim>\<open>timeout\<close> keep their default \<^verbatim>\<open>None\<close> (no body, no caller headers, wait forever).
\<close>

record http_call =
  call_method :: string
  call_url :: string
  call_data :: "string option"
  call_headers :: "(string \<times> string) list option"
  call_timeout :: "nat option"

definition requests_get_args :: "string \<Rightarrow> http_call" where
  "requests_get_args url =
     \<lparr>call_method = ''GET'', call_url = url, call_data = None,
      call_headers = None, call_timeout = None\<rparr>"

record response =
  status_code :: int
  reason :: string
  resp_url :: string
  resp_headers :: "(string \<times> string) list"
  content :: string

text \<open>
  \<^verbatim>\<open>requests.get\<close> either returns a response or raises a
  \<^verbatim>\<open>requests.RequestException\<close> (connection refused, timeout, ...), kept with its
  \<^verbatim>\<open>str(e)\<close>.
\<close>

datatype get_outcome = Got response | RequestException string

text \<open>
  \<^verbatim>\<open>subprocess.run(cmd, check=True)\<close> returns, raises \<^verbatim>\<open>CalledProcessError\<close> on a
  non-zero exit status, or raises an \<^verbatim>\<open>OSError\<close> when the program cannot be started.
\<close>

datatype run_outcome = Completed | CalledProcessError | OSError string

datatype exn =
    CalledProcessError_raised
  | OSError_raised string
  | NameError_raised string
  | CircuitBreakerError_raised
  | Other_raised string

datatype event =
    LogInfo string
  | LogError string
  | SetRootPath string
  | HttpCall http_call
  | CallNext request
  | Run "string list"
  | Sleep int
  | WriteFile string compose
  | Alert string string
  | Smtp email

type_synonym 'w requests_get = "http_call \<Rightarrow> 'w \<Rightarrow> get_outcome \<times> 'w"
type_synonym 'w subprocess_run = "string list \<Rightarrow> 'w \<Rightarrow> run_outcome \<times> 'w"

text \<open>
  Writing a file and sending a mail either succeed (\<open>None\<close>) or raise, kept with the
  text of the exception.
\<close>

type_synonym 'w write_file = "string \<Rightarrow> compose \<Rightarrow> 'w \<Rightarrow> string option \<times> 'w"
type_synonym 'w smtp_send = "email \<Rightarrow> 'w \<Rightarrow> string option \<times> 'w"

section \<open>Request dispatch\<close>

text \<open>
  \<^verbatim>\<open>Response.raise_for_status()\<close> raises \<^verbatim>\<open>HTTPError\<close> (a
  \<^verbatim>\<open>RequestException\<close>) for a status from 400 to 599; the value is the message of the
  exception, \<open>None\<close> when nothing is raised.
\<close>

definition raise_for_status :: "response \<Rightarrow> string option" where
  "raise_for_status r =
     (if 400 \<le> status_code r \<and> status_code r < 500 then
        Some (str_int (status_code r) @ '' Client Error: '' @ reason r
              @ '' for url: '' @ resp_url r)
      else if 500 \<le> status_code r \<and> status_code r < 600 then
        Some (str_int (status_code r) @ '' Server Error: '' @ reason r
              @ '' for url: '' @ resp_url r)
      else None)"

text \<open>Lines 116 and 117 of \<^verbatim>\<open>dispatch\<close>: the name the request is routed by.\<close>

definition subapp_name_of :: "request \<Rightarrow> string" where
  "subapp_name_of request =
     (let path = strip_slash (req_path request)
      in if path = [] then ''main'' else split_first path)"

definition backend_url :: "int \<Rightarrow> request \<Rightarrow> string" where
  "backend_url port request = ''http://localhost:'' @ str_int port @ req_path request"

definition HTTP_503_SERVICE_UNAVAILABLE :: int where
  "HTTP_503_SERVICE_UNAVAILABLE = 503"

text \<open>
  What \<^verbatim>\<open>dispatch\<close> ends with: the backend's response returned, an
  \<^verbatim>\<open>HTTPException(status_code, detail)\<close> raised, or the value of
  \<^verbatim>\<open>call_next(request)\<close>.
\<close>

datatype 'r dispatch_result =
    Returned response
  | HTTPException int string
  | Fallback 'r

definition unavailable :: "string \<Rightarrow> string \<Rightarrow> 'r dispatch_result" where
  "unavailable subapp_name msg =
     HTTPException HTTP_503_SERVICE_UNAVAILABLE
       (''Subapp '' @ subapp_name @ '' is currently unavailable: '' @ msg)"

definition dispatch ::
  "port_table \<Rightarrow> 'w requests_get \<Rightarrow> (request \<Rightarrow> 'w \<Rightarrow> 'r \<times> 'w) \<Rightarrow> request \<Rightarrow> 'w
     \<Rightarrow> event list \<times> 'r dispatch_result \<times> 'w" where
  "dispatch ports requests_get call_next request w =
     (let subapp_name = subapp_name_of request
      in case map_of ports subapp_name of
           Some port \<Rightarrow>
             (let url = backend_url port request;
                  sent = [SetRootPath (''/'' @ subapp_name), HttpCall (requests_get_args url)];
                  failed = LogError (''Error processing request for '' @ subapp_name)
              in case requests_get (requests_get_args url) w of
                   (Got r, w') \<Rightarrow>
                     (case raise_for_status r of
                        None \<Rightarrow> (sent, Returned r, w')
                      | Some msg \<Rightarrow> (sent @ [failed], unavailable subapp_name msg, w'))
                 | (RequestException msg, w') \<Rightarrow>
                     (sent @ [failed], unavailable subapp_name msg, w'))
         | None \<Rightarrow>
             (case call_next request w of
                (r, w') \<Rightarrow> ([CallNext request], Fallback r, w')))"

text \<open>The outbound HTTP calls among the events.\<close>

fun http_calls :: "event list \<Rightarrow> http_call list" where
  "http_calls [] = []"
| "http_calls (HttpCall c # es) = c # http_calls es"
| "http_calls (_ # es) = http_calls es"

section \<open>Manifest generation\<close>

text \<open>The dict assigned to \<^verbatim>\<open>services[subapp_name]\<close> in one turn of the loop.\<close>

definition service_entry :: "int \<Rightarrow> string \<Rightarrow> int \<Rightarrow> service" where
  "service_entry scaling subapp_name port =
     \<lparr>svc_build = (if subapp_name \<noteq> ''main'' then ''./subapps/'' @ subapp_name else ''.''),
      svc_ports = [str_int port @ '':8000''],
      svc_deploy =
        \<lparr>dp_replicas = scaling,
         dp_restart_policy =
           \<lparr>rp_condition = ''on-failure'', rp_delay = ''5s'',
            rp_max_attempts = 3, rp_window = ''120s''\<rparr>\<rparr>,
      svc_healthcheck =
        \<lparr>hc_test = [''CMD-SHELL'',
                    ''curl --fail http://localhost:'' @ str_int port @ ''/health || exit 1''],
         hc_interval = ''30s'', hc_timeout = ''10s'', hc_retries = 3,
         hc_start_period = ''10s''\<rparr>\<rparr>"

text \<open>
  The loop over \<^verbatim>\<open>SUBAPP_PORTS.items()\<close>: an assignment to a key of a Python dict
  replaces the value in place when the key is there and appends the key otherwise, which
  is \<^const>\<open>AList.update\<close>.
\<close>

definition compose_dict :: "config \<Rightarrow> port_table \<Rightarrow> compose" where
  "compose_dict cfg ports =
     \<lparr>cmp_version = ''3.8'',
      cmp_services =
        foldl (\<lambda>services (subapp_name, port).
                 AList.update subapp_name
                   (service_entry (SCALING_FACTOR cfg) subapp_name port) services)
          [] ports\<rparr>"

definition generate_docker_compose ::
  "config \<Rightarrow> port_table \<Rightarrow> 'w write_file \<Rightarrow> 'w \<Rightarrow> event list \<times> exn option \<times> 'w" where
  "generate_docker_compose cfg ports write_file w =
     (let written = WriteFile (DOCKER_COMPOSE_FILE cfg) (compose_dict cfg ports)
      in case write_file (DOCKER_COMPOSE_FILE cfg) (compose_dict cfg ports) w of
           (None, w') \<Rightarrow>
             ([written, LogInfo ''Generated docker-compose.yml successfully.''], None, w')
         | (Some msg, w') \<Rightarrow> ([written], Some (OSError_raised msg), w'))"

section \<open>Fleet controller\<close>

definition stop_services ::
  "config \<Rightarrow> 'w subprocess_run \<Rightarrow> 'w \<Rightarrow> event list \<times> exn option \<times> 'w" where
  "stop_services cfg subprocess_run w =
     (let cmd = [''docker-compose'', ''-f'', DOCKER_COMPOSE_FILE cfg, ''down'']
      in case subprocess_run cmd w of
           (Completed, w') \<Rightarrow>
             ([Run cmd, LogInfo ''Docker Compose services stopped successfully.''], None, w')
         | (CalledProcessError, w') \<Rightarrow>
             ([Run cmd, LogError ''Failed to stop Docker Compose services.''],
              Some CalledProcessError_raised, w')
         | (OSError msg, w') \<Rightarrow> ([Run cmd], Some (OSError_raised msg), w'))"

definition restart_service ::
  "'w subprocess_run \<Rightarrow> string \<Rightarrow> 'w \<Rightarrow> event list \<times> exn option \<times> 'w" where
  "restart_service subprocess_run subapp_name w =
     (let cmd = [''docker-compose'', ''restart'', subapp_name]
      in case subprocess_run cmd w of
           (Completed, w') \<Rightarrow>
             ([Run cmd, LogInfo (''Restarted service: '' @ subapp_name)], None, w')
         | (CalledProcessError, w') \<Rightarrow>
             ([Run cmd, LogError (''Failed to restart service '' @ subapp_name @ ''.'')],
              Some CalledProcessError_raised, w')
         | (OSError msg, w') \<Rightarrow> ([Run cmd], Some (OSError_raised msg), w'))"

text \<open>The restart invocations among the events, by the name of the service.\<close>

fun restarts :: "event list \<Rightarrow> string list" where
  "restarts [] = []"
| "restarts (Run [a, b, c] # es) =
     (if a = ''docker-compose'' \<and> b = ''restart'' then c # restarts es else restarts es)"
| "restarts (_ # es) = restarts es"

section \<open>Health monitor\<close>

definition health_url :: "int \<Rightarrow> string" where
  "health_url port = ''http://localhost:'' @ str_int port @ ''/health''"

definition health_failed :: "string \<Rightarrow> int \<Rightarrow> event" where
  "health_failed subapp_name code =
     LogError (''Health check failed for '' @ subapp_name @ ''. Status code: '' @ str_int code)"

text \<open>
  The \<^verbatim>\<open>for\<close> loop inside the \<^verbatim>\<open>try\<close> of \<^verbatim>\<open>health_check\<close>. It ends either
  at the end of the table (\<open>None\<close>) or at the first probe that raises, with the value
  of the loop variable \<^verbatim>\<open>subapp_name\<close> at that moment and the text of the exception.
\<close>

fun probe_all ::
  "'w requests_get \<Rightarrow> port_table \<Rightarrow> 'w \<Rightarrow> event list \<times> (string \<times> string) option \<times> 'w" where
  "probe_all requests_get [] w = ([], None, w)"
| "probe_all requests_get ((subapp_name, port) # rest) w =
     (let call = requests_get_args (health_url port)
      in case requests_get call w of
           (RequestException msg, w') \<Rightarrow> ([HttpCall call], Some (subapp_name, msg), w')
         | (Got r, w') \<Rightarrow>
             (case probe_all requests_get rest w' of
                (es, raised, w'') \<Rightarrow>
                  (HttpCall call
                     # (if status_code r \<noteq> 200 then [health_failed subapp_name (status_code r)]
                        else [])
                     @ es,
                   raised, w'')))"

text \<open>
  One turn of the \<^verbatim>\<open>while True\<close> loop. The handler of the \<^verbatim>\<open>try\<close> restarts the
  service named by the loop variable; an exception of \<^verbatim>\<open>restart_service\<close> is raised
  inside the handler, so it leaves the loop and the coroutine before the sleep.
\<close>

definition health_check_tick ::
  "config \<Rightarrow> port_table \<Rightarrow> 'w requests_get \<Rightarrow> 'w subprocess_run \<Rightarrow> 'w
     \<Rightarrow> event list \<times> exn option \<times> 'w" where
  "health_check_tick cfg ports requests_get subprocess_run w =
     (case probe_all requests_get ports w of
        (es, None, w') \<Rightarrow> (es @ [Sleep (HEALTH_CHECK_INTERVAL cfg)], None, w')
      | (es, Some (subapp_name, msg), w') \<Rightarrow>
          (let logged = LogError (''Error during health check: '' @ msg)
           in case restart_service subprocess_run subapp_name w' of
                (rs, None, w'') \<Rightarrow>
                  (es @ logged # rs @ [Sleep (HEALTH_CHECK_INTERVAL cfg)], None, w'')
              | (rs, Some e, w'') \<Rightarrow> (es @ logged # rs, Some e, w'')))"

text \<open>
  The loop never returns by itself; the first argument bounds the number of turns looked
  at. The result is \<open>None\<close> while the loop is still running after that many turns, and
  the exception that ended it otherwise.
\<close>

fun health_check ::
  "nat \<Rightarrow> config \<Rightarrow> port_table \<Rightarrow> 'w requests_get \<Rightarrow> 'w subprocess_run \<Rightarrow> 'w
     \<Rightarrow> event list \<times> exn option \<times> 'w" where
  "health_check 0 cfg ports requests_get subprocess_run w = ([], None, w)"
| "health_check (Suc n) cfg ports requests_get subprocess_run w =
     (case health_check_tick cfg ports requests_get subprocess_run w of
        (es, Some e, w') \<Rightarrow> (es, Some e, w')
      | (es, None, w') \<Rightarrow>
          (case health_check n cfg ports requests_get subprocess_run w' of
             (es', r, w'') \<Rightarrow> (es @ es', r, w'')))"

text \<open>
  What the backends do in one turn, told without the loop: starting from a state of the
  world, the health endpoints of the entries are asked in order and every one of them
  answers with a response, of whatever status; the value is the state of the world after
  the last answer. It is \<open>None\<close> when one of the requests raises.
\<close>

fun probes_answered :: "'w requests_get \<Rightarrow> port_table \<Rightarrow> 'w \<Rightarrow> 'w option" where
  "probes_answered requests_get [] w = Some w"
| "probes_answered requests_get ((subapp_name, port) # rest) w =
     (case requests_get (requests_get_args (health_url port)) w of
        (Got r, w') \<Rightarrow> probes_answered requests_get rest w'
      | (RequestException msg, w') \<Rightarrow> None)"

section \<open>Shutdown\<close>

datatype shutdown_result = Exited int | Propagated exn

text \<open>
  \<^verbatim>\<open>main.py\<close> never imports \<^verbatim>\<open>sys\<close>, so evaluating \<^verbatim>\<open>sys.exit(0)\<close> raises
  \<^verbatim>\<open>NameError\<close> on the name \<^verbatim>\<open>sys\<close> before any exit is asked for.
\<close>

definition sys_exit :: "int \<Rightarrow> shutdown_result" where
  "sys_exit code = Propagated (NameError_raised ''sys'')"

definition graceful_shutdown ::
  "config \<Rightarrow> 'w subprocess_run \<Rightarrow> 'w \<Rightarrow> event list \<times> shutdown_result \<times> 'w" where
  "graceful_shutdown cfg subprocess_run w =
     (let received = LogInfo ''Received signal to shut down. Stopping services...''
      in case stop_services cfg subprocess_run w of
           (es, Some e, w') \<Rightarrow> (received # es, Propagated e, w')
         | (es, None, w') \<Rightarrow>
             (received # es @ [LogInfo ''Services stopped. Exiting...''], sys_exit 0, w'))"

section \<open>Circuit breaker and alerting\<close>

datatype circuit_state = Closed | Open | HalfOpen

text \<open>
  An object of class \<^verbatim>\<open>CustomCircuitBreaker\<close>: its name, the two settings handed to
  the base class, and the state the base class keeps. The constructor is not modelled:
  it hands the settings to the constructor of the base class and then assigns
  \<^verbatim>\<open>self.name\<close>, and whether that assignment is accepted is decided by the base
  class. What follows is about any object of the class.
\<close>

record CustomCircuitBreaker =
  cb_name :: string
  failure_threshold :: int
  recovery_timeout :: int
  cb_state :: circuit_state
  failure_count :: int
  opened_at :: "int option"

type_synonym ('w, 'a) func = "'w \<Rightarrow> (exn + 'a) \<times> 'w"
type_synonym ('w, 'a) breaker_call =
  "CustomCircuitBreaker \<Rightarrow> ('w, 'a) func \<Rightarrow> 'w \<Rightarrow> (exn + 'a) \<times> CustomCircuitBreaker \<times> 'w"

definition send_alert ::
  "config \<Rightarrow> 'w smtp_send \<Rightarrow> CustomCircuitBreaker \<Rightarrow> string \<Rightarrow> 'w \<Rightarrow> event list \<times> 'w" where
  "send_alert cfg smtp_send self message w =
     (let msg = \<lparr>mail_subject = ''Alert: Service Issue in '' @ cb_name self,
                 mail_from = SMTP_USERNAME cfg, mail_to = ALERT_EMAIL cfg,
                 mail_content = message\<rparr>
      in case smtp_send msg w of
           (None, w') \<Rightarrow>
             ([Alert (cb_name self) message, Smtp msg,
               LogInfo (''Alert sent for '' @ cb_name self @ '' issue.'')], w')
         | (Some err, w') \<Rightarrow>
             ([Alert (cb_name self) message, Smtp msg,
               LogError (''Failed to send alert email: '' @ err)], w'))"

text \<open>
  \<^verbatim>\<open>CustomCircuitBreaker.call\<close>. The call of the base class, \<^verbatim>\<open>super().call\<close>, belongs
  to the package \<^verbatim>\<open>circuitbreaker\<close> and is a parameter here.
\<close>

definition call ::
  "config \<Rightarrow> 'w smtp_send \<Rightarrow> ('w, 'a) breaker_call \<Rightarrow> CustomCircuitBreaker \<Rightarrow> ('w, 'a) func \<Rightarrow> 'w
     \<Rightarrow> event list \<times> (exn + 'a) \<times> CustomCircuitBreaker \<times> 'w" where
  "call cfg smtp_send super_call self func w =
     (case super_call self func w of
        (Inl CircuitBreakerError_raised, self', w') \<Rightarrow>
          (let message = ''Circuit breaker triggered for '' @ cb_name self'
                          @ ''. Service temporarily unavailable.''
           in case send_alert cfg smtp_send self' message w' of
                (es, w'') \<Rightarrow> (LogError message # es, Inl CircuitBreakerError_raised, self', w''))
      | (r, self', w') \<Rightarrow> ([], r, self', w'))"

text \<open>The number of times the alert notifier was invoked.\<close>

fun alerts :: "event list \<Rightarrow> nat" where
  "alerts [] = 0"
| "alerts (Alert n m # es) = Suc (alerts es)"
| "alerts (_ # es) = alerts es"

text \<open>
  The base class \<^verbatim>\<open>CircuitBreaker\<close> belongs to the package \<^verbatim>\<open>circuitbreaker\<close> and
  is not part of the sources; the definitions that follow give it the behaviour of
  section 4.3 of the specification. The clock is read from the world.
\<close>

text \<open>
  Modelled from the spec: \<^verbatim>\<open>isCallPermitted\<close> of the missing base class. A Closed
  breaker permits the call; an Open breaker rejects it until the recovery timeout has
  passed since it opened, then lets a trial call through.
\<close>

definition is_call_permitted :: "('w \<Rightarrow> int) \<Rightarrow> CustomCircuitBreaker \<Rightarrow> 'w \<Rightarrow> bool" where
  "is_call_permitted clock self w =
     (case cb_state self of
        Open \<Rightarrow> (case opened_at self of
                   None \<Rightarrow> False
                 | Some t \<Rightarrow> recovery_timeout self \<le> clock w - t)
      | _ \<Rightarrow> True)"

text \<open>
  Modelled from the spec: \<^verbatim>\<open>recordOutcome\<close> with a failure, of the missing base class.
  A Closed breaker counts the failure and opens, recording the time, when the count
  reaches the threshold; a failed trial opens the breaker again with a fresh time.
\<close>

definition record_failure :: "int \<Rightarrow> CustomCircuitBreaker \<Rightarrow> CustomCircuitBreaker" where
  "record_failure now self =
     (case cb_state self of
        Closed \<Rightarrow>
          (if failure_count self + 1 = failure_threshold self
           then self\<lparr>cb_state := Open, failure_count := failure_count self + 1,
                     opened_at := Some now\<rparr>
           else self\<lparr>failure_count := failure_count self + 1\<rparr>)
      | _ \<Rightarrow> self\<lparr>cb_state := Open, opened_at := Some now\<rparr>)"

text \<open>
  Modelled from the spec: \<^verbatim>\<open>recordOutcome\<close> with a success, of the missing base class.
  The breaker closes and the count of failures goes back to 0.
\<close>

definition record_success :: "CustomCircuitBreaker \<Rightarrow> CustomCircuitBreaker" where
  "record_success self = self\<lparr>cb_state := Closed, failure_count := 0\<rparr>"

text \<open>
  Modelled from the spec: \<^verbatim>\<open>CircuitBreaker.call\<close> of the missing base class, for a
  call that the breaker lets through (a Closed breaker, or the trial call). The function
  runs, its outcome is recorded, and its result or its exception is passed on.
\<close>

definition CircuitBreaker_attempt :: "('w \<Rightarrow> int) \<Rightarrow> ('w, 'a) breaker_call" where
  "CircuitBreaker_attempt clock self func w =
     (case func w of
        (Inr v, w') \<Rightarrow> (Inr v, record_success self, w')
      | (Inl e, w') \<Rightarrow> (Inl e, record_failure (clock w') self, w'))"

section \<open>Scenarios\<close>

text \<open>Concrete backends, requests and callers, for the examples below.\<close>

definition backend_status :: "int \<Rightarrow> unit requests_get" where
  "backend_status code c w =
     (Got \<lparr>status_code = code, reason = ''-'', resp_url = call_url c,
            resp_headers = [], content = ''payload''\<rparr>, w)"

definition backend_down :: "unit requests_get" where
  "backend_down c w = (RequestException ''connection refused'', w)"

definition local_routes :: "request \<Rightarrow> unit \<Rightarrow> string \<times> unit" where
  "local_routes r w = (''local page'', w)"

definition post_request :: "string \<Rightarrow> request" where
  "post_request p =
     \<lparr>req_method = ''POST'', req_path = p, req_body = ''amount=5'',
      req_headers = [(''Authorization'', ''token'')]\<rparr>"

definition open_breaker :: CustomCircuitBreaker where
  "open_breaker =
     \<lparr>cb_name = ''subapp1'', failure_threshold = 3, recovery_timeout = 60,
      cb_state = Open, failure_count = 3, opened_at = Some 0\<rparr>"

definition healthy :: "string \<Rightarrow> response" where
  "healthy url = \<lparr>status_code = 200, reason = ''OK'', resp_url = url,
            resp_headers = [], content = ''healthy''\<rparr>"

definition subapp1_unhealthy :: "unit requests_get" where
  "subapp1_unhealthy c w =
     (if call_url c = ''http://localhost:8001/health''
      then Got ((healthy (call_url c))\<lparr>status_code := 500, reason := ''Internal Server Error''\<rparr>)
      else Got (healthy (call_url c)), w)"

definition subapp1_unreachable :: "unit requests_get" where
  "subapp1_unreachable c w =
     (if call_url c = ''http://localhost:8001/health''
      then RequestException ''connection refused''
      else Got (healthy (call_url c)), w)"

definition compose_ok :: "unit subprocess_run" where
  "compose_ok cmd w = (Completed, w)"

definition compose_fails :: "unit subprocess_run" where
  "compose_fails cmd w = (CalledProcessError, w)"

definition billing_table :: port_table where
  "billing_table = [(''main'', 8000), (''billing'', 8001)]"

definition scaled_config :: config where
  "scaled_config = default_config\<lparr>SCALING_FACTOR := 2\<rparr>"

definition disk_ok :: "unit write_file" where
  "disk_ok path c w = (None, w)"

definition failing :: "(int, unit) func" where
  "failing w = (Inl (Other_raised ''connection refused''), w + 1)"

definition mail_ok :: "int smtp_send" where
  "mail_ok m w = (None, w)"

definition closed_breaker :: CustomCircuitBreaker where
  "closed_breaker =
     \<lparr>cb_name = ''subapp1'', failure_threshold = 3, recovery_timeout = 60,
      cb_state = Closed, failure_count = 2, opened_at = None\<rparr>"

definition refusing_call :: "(int, unit) breaker_call" where
  "refusing_call self func w = (Inl CircuitBreakerError_raised, self, w)"

section \<open>Evaluation\<close>

lemma str_nat_small: "n < 10 \<Longrightarrow> str_nat n = [''0123456789'' ! n]"
  by (subst str_nat.simps) simp

lemma str_nat_big:
  "10 \<le> n \<Longrightarrow> str_nat n = str_nat (n div 10) @ [''0123456789'' ! (n mod 10)]"
  by (subst str_nat.simps) simp

lemmas str_eval = str_int_def str_nat_small str_nat_big

lemmas scenario_defs =
  backend_status_def backend_down_def local_routes_def post_request_def
  default_config_def SUBAPP_PORTS_def

lemmas dispatch_eval =
  dispatch_def subapp_name_of_def strip_slash_def split_first_def backend_url_def
  requests_get_args_def raise_for_status_def unavailable_def
  HTTP_503_SERVICE_UNAVAILABLE_def Let_def

section \<open>Dispatch\<close>

lemma dispatch_known:
  assumes "map_of ports (subapp_name_of request) = Some port"
  shows "dispatch ports requests_get call_next request w =
           (let subapp_name = subapp_name_of request;
                url = backend_url port request;
                sent = [SetRootPath (''/'' @ subapp_name), HttpCall (requests_get_args url)];
                failed = LogError (''Error processing request for '' @ subapp_name)
            in case requests_get (requests_get_args url) w of
                 (Got r, w') \<Rightarrow>
                   (case raise_for_status r of
                      None \<Rightarrow> (sent, Returned r, w')
                    | Some msg \<Rightarrow> (sent @ [failed], unavailable subapp_name msg, w'))
               | (RequestException msg, w') \<Rightarrow>
                   (sent @ [failed], unavailable subapp_name msg, w'))"
  using assms by (simp add: dispatch_def Let_def)

lemma dispatch_known_calls:
  assumes "map_of ports (subapp_name_of request) = Some port"
  shows "http_calls (fst (dispatch ports requests_get call_next request w)) =
           [requests_get_args (backend_url port request)]"
  by (simp add: dispatch_known [OF assms] Let_def
           split: prod.splits get_outcome.splits option.splits)

lemma main_known:
  assumes "strip_slash (req_path request) = [] \<or>
           split_first (strip_slash (req_path request)) = ''main''"
  shows "map_of (SUBAPP_PORTS cfg) (subapp_name_of request) = Some (MAIN_APP_PORT cfg)"
  using assms by (auto simp: subapp_name_of_def SUBAPP_PORTS_def Let_def)




text \<open>
  Claim C9. A request whose path is empty once its slashes are stripped, or whose first
  path segment is \<^verbatim>\<open>main\<close>, is routed by the name \<^verbatim>\<open>main\<close>, which is a key of
  \<^verbatim>\<open>SUBAPP_PORTS\<close>: \<^verbatim>\<open>dispatch\<close> makes one outbound call, to
  \<^verbatim>\<open>http://localhost:<MAIN_APP_PORT><path>\<close>, and neither calls nor returns the
  fallback handler.
\<close>

theorem dispatch_main_goes_to_own_port:
  assumes "strip_slash (req_path request) = [] \<or>
           split_first (strip_slash (req_path request)) = ''main''"
  shows "subapp_name_of request = ''main''
         \<and> http_calls (fst (dispatch (SUBAPP_PORTS cfg) requests_get call_next request w)) =
             [requests_get_args
                (''http://localhost:'' @ str_int (MAIN_APP_PORT cfg) @ req_path request)]
         \<and> CallNext request
             \<notin> set (fst (dispatch (SUBAPP_PORTS cfg) requests_get call_next request w))
         \<and> (\<forall>r. fst (snd (dispatch (SUBAPP_PORTS cfg) requests_get call_next request w))
                  \<noteq> Fallback r)"
proof -
  note k = main_known [OF assms, of cfg]
  have 1: "subapp_name_of request = ''main''"
    using assms by (auto simp: subapp_name_of_def Let_def)
  have 2: "http_calls (fst (dispatch (SUBAPP_PORTS cfg) requests_get call_next request w)) =
             [requests_get_args
                (''http://localhost:'' @ str_int (MAIN_APP_PORT cfg) @ req_path request)]"
    using dispatch_known_calls [OF k] by (simp add: backend_url_def)
  have 3: "CallNext request
             \<notin> set (fst (dispatch (SUBAPP_PORTS cfg) requests_get call_next request w))"
    by (simp add: dispatch_known [OF k] Let_def
             split: prod.splits get_outcome.splits option.splits)
  have 4: "\<forall>r. fst (snd (dispatch (SUBAPP_PORTS cfg) requests_get call_next request w))
                 \<noteq> Fallback r"
    by (simp add: dispatch_known [OF k] Let_def unavailable_def
             split: prod.splits get_outcome.splits option.splits)
  from 1 2 3 4 show ?thesis by blast
qed

theorem dispatch_main_goes_to_own_port_witness:
  "(strip_slash (req_path (post_request ''/'')) = [] \<or>
    split_first (strip_slash (req_path (post_request ''/''))) = ''main'')
   \<and> http_calls (fst (dispatch (SUBAPP_PORTS default_config) (backend_status 200)
        local_routes (post_request ''/'') ()))
      = [requests_get_args ''http://localhost:8000/'']
   \<and> (strip_slash (req_path (post_request ''/main/items'')) = [] \<or>
      split_first (strip_slash (req_path (post_request ''/main/items''))) = ''main'')
   \<and> http_calls (fst (dispatch (SUBAPP_PORTS default_config) (backend_status 200)
        local_routes (post_request ''/main/items'') ()))
      = [requests_get_args ''http://localhost:8000/main/items'']"
proof -
  have h1: "strip_slash (req_path (post_request ''/'')) = [] \<or>
            split_first (strip_slash (req_path (post_request ''/''))) = ''main''"
    by (simp add: post_request_def strip_slash_def)
  have h2: "strip_slash (req_path (post_request ''/main/items'')) = [] \<or>
            split_first (strip_slash (req_path (post_request ''/main/items''))) = ''main''"
    by (simp add: post_request_def strip_slash_def split_first_def)
  have p: "str_int (MAIN_APP_PORT default_config) = ''8000''"
    by (simp add: default_config_def str_eval)
  from dispatch_main_goes_to_own_port
         [OF h1, of default_config "backend_status 200" local_routes "()"]
  have c1: "http_calls (fst (dispatch (SUBAPP_PORTS default_config) (backend_status 200)
              local_routes (post_request ''/'') ()))
            = [requests_get_args ''http://localhost:8000/'']"
    by (simp add: p post_request_def)
  from dispatch_main_goes_to_own_port
         [OF h2, of default_config "backend_status 200" local_routes "()"]
  have c2: "http_calls (fst (dispatch (SUBAPP_PORTS default_config) (backend_status 200)
              local_routes (post_request ''/main/items'') ()))
            = [requests_get_args ''http://localhost:8000/main/items'']"
    by (simp add: p post_request_def)
  from h1 h2 c1 c2 show ?thesis by blast
qed

text \<open>
  Claim C1, as amended. \<^verbatim>\<open>dispatch\<close> has no breaker among its inputs and consults
  none: for every request routed to a known backend it attempts exactly one outbound
  call. It answers with a 503 \<^verbatim>\<open>HTTPException\<close> exactly when that call raises a
  \<^verbatim>\<open>RequestException\<close> or comes back with a status from 400 to 599, and records
  nothing on any breaker.
\<close>

theorem dispatch_known_always_calls_backend:
  assumes "map_of ports (subapp_name_of request) = Some port"
  shows "length (http_calls (fst (dispatch ports requests_get call_next request w))) = 1
         \<and> ((\<exists>detail. fst (snd (dispatch ports requests_get call_next request w))
                        = HTTPException 503 detail)
             \<longleftrightarrow> (\<exists>msg. fst (requests_get (requests_get_args (backend_url port request)) w)
                         = RequestException msg)
                 \<or> (\<exists>r. fst (requests_get (requests_get_args (backend_url port request)) w)
                         = Got r \<and> 400 \<le> status_code r \<and> status_code r < 600))"
proof -
  have a: "length (http_calls (fst (dispatch ports requests_get call_next request w))) = 1"
    by (simp add: dispatch_known_calls [OF assms])
  have b: "(\<exists>detail. fst (snd (dispatch ports requests_get call_next request w))
                        = HTTPException 503 detail)
             \<longleftrightarrow> (\<exists>msg. fst (requests_get (requests_get_args (backend_url port request)) w)
                         = RequestException msg)
                 \<or> (\<exists>r. fst (requests_get (requests_get_args (backend_url port request)) w)
                         = Got r \<and> 400 \<le> status_code r \<and> status_code r < 600)"
    by (auto simp: dispatch_known [OF assms] Let_def unavailable_def
                   HTTP_503_SERVICE_UNAVAILABLE_def raise_for_status_def
             split: prod.splits get_outcome.splits option.splits if_splits)
  from a b show ?thesis by blast
qed

theorem dispatch_known_always_calls_backend_witness:
  "map_of (SUBAPP_PORTS default_config) (subapp_name_of (post_request ''/subapp1/x''))
     = Some 8001
   \<and> length (http_calls (fst (dispatch (SUBAPP_PORTS default_config) backend_down
        local_routes (post_request ''/subapp1/x'') ()))) = 1
   \<and> (\<exists>detail. fst (snd (dispatch (SUBAPP_PORTS default_config) backend_down local_routes
        (post_request ''/subapp1/x'') ())) = HTTPException 503 detail)"
proof -
  have h: "map_of (SUBAPP_PORTS default_config) (subapp_name_of (post_request ''/subapp1/x''))
             = Some 8001"
    by (simp add: scenario_defs dispatch_eval)
  have d: "\<exists>msg. fst (backend_down
              (requests_get_args (backend_url 8001 (post_request ''/subapp1/x''))) ())
            = RequestException msg"
    by (simp add: backend_down_def)
  from dispatch_known_always_calls_backend [OF h, of backend_down local_routes "()"] h d
  show ?thesis by blast
qed

text \<open>
  The claim as stated fails: with a breaker for \<^verbatim>\<open>subapp1\<close> that is Open, opened at
  time 0 with a recovery timeout of 60 and asked at time 10 (so that it permits no call),
  a request for \<^verbatim>\<open>/subapp1/x\<close> is still sent to the backend and the backend's answer
  is returned.
\<close>

theorem dispatch_ignores_open_breaker:
  "cb_name open_breaker = subapp_name_of (post_request ''/subapp1/x'')
   \<and> cb_state open_breaker = Open
   \<and> \<not> is_call_permitted (\<lambda>now. now) open_breaker (10::int)
   \<and> dispatch (SUBAPP_PORTS default_config) (backend_status 200) local_routes
        (post_request ''/subapp1/x'') ()
      = ([SetRootPath ''/subapp1'',
          HttpCall (requests_get_args ''http://localhost:8001/subapp1/x'')],
         Returned \<lparr>status_code = 200, reason = ''-'',
                   resp_url = ''http://localhost:8001/subapp1/x'',
                   resp_headers = [], content = ''payload''\<rparr>, ())"
  by (simp add: open_breaker_def is_call_permitted_def scenario_defs dispatch_eval str_eval)

text \<open>
  Claim C3, as amended. When the backend answers a request for a known backend, a
  response whose status is below 400 (2xx, 3xx) or not below 600 is returned as it is,
  status included; a response with a status from 400 to 599, so every 4xx, is replaced by
  a 503 \<^verbatim>\<open>HTTPException\<close>. The only effects are the root path set on the request,
  the outbound call and, for a rejected response, one error log line: nothing is recorded
  on a breaker.
\<close>

theorem dispatch_returns_or_rejects_by_status:
  assumes "map_of ports (subapp_name_of request) = Some port"
      and "requests_get (requests_get_args (backend_url port request)) w = (Got r, w')"
  shows "(status_code r < 400 \<or> 600 \<le> status_code r \<longrightarrow>
            fst (snd (dispatch ports requests_get call_next request w)) = Returned r)
         \<and> (400 \<le> status_code r \<and> status_code r < 600 \<longrightarrow>
            (\<exists>detail. fst (snd (dispatch ports requests_get call_next request w))
                        = HTTPException 503 detail))
         \<and> fst (dispatch ports requests_get call_next request w)
             = [SetRootPath (''/'' @ subapp_name_of request),
                HttpCall (requests_get_args (backend_url port request))]
               @ (if 400 \<le> status_code r \<and> status_code r < 600
                  then [LogError (''Error processing request for '' @ subapp_name_of request)]
                  else [])"
  using assms(2)
  by (auto simp: dispatch_known [OF assms(1)] Let_def unavailable_def
                 HTTP_503_SERVICE_UNAVAILABLE_def raise_for_status_def)

theorem dispatch_returns_or_rejects_by_status_witness:
  "map_of (SUBAPP_PORTS default_config) (subapp_name_of (post_request ''/subapp2/y''))
     = Some 8002
   \<and> fst (snd (dispatch (SUBAPP_PORTS default_config) (backend_status 304) local_routes
        (post_request ''/subapp2/y'') ()))
      = Returned \<lparr>status_code = 304, reason = ''-'',
                  resp_url = ''http://localhost:8002/subapp2/y'',
                  resp_headers = [], content = ''payload''\<rparr>
   \<and> (\<exists>detail. fst (snd (dispatch (SUBAPP_PORTS default_config) (backend_status 500)
        local_routes (post_request ''/subapp2/y'') ())) = HTTPException 503 detail)"
proof -
  let ?rq = "post_request ''/subapp2/y''"
  let ?r = "\<lambda>code. \<lparr>status_code = code, reason = ''-'',
                      resp_url = ''http://localhost:8002/subapp2/y'',
                      resp_headers = [], content = ''payload''\<rparr>"
  have h: "map_of (SUBAPP_PORTS default_config) (subapp_name_of ?rq) = Some 8002"
    by (simp add: scenario_defs dispatch_eval)
  have g: "backend_status code (requests_get_args (backend_url 8002 ?rq)) () = (Got (?r code), ())"
    for code
    by (simp add: scenario_defs dispatch_eval str_eval)
  from dispatch_returns_or_rejects_by_status
         [where requests_get = "backend_status 304" and w = "()" and call_next = local_routes,
          OF h g [of 304]]
  have a: "fst (snd (dispatch (SUBAPP_PORTS default_config) (backend_status 304) local_routes
             ?rq ())) = Returned (?r 304)"
    by simp
  from dispatch_returns_or_rejects_by_status
         [where requests_get = "backend_status 500" and w = "()" and call_next = local_routes,
          OF h g [of 500]]
  have b: "\<exists>detail. fst (snd (dispatch (SUBAPP_PORTS default_config) (backend_status 500)
             local_routes ?rq ())) = HTTPException 503 detail"
    by simp
  from h a b show ?thesis by blast
qed

text \<open>
  The claim as stated fails for a 4xx response: a backend that answers 404 is reported to
  the caller as a 503 \<^verbatim>\<open>HTTPException\<close>, and the 404 response is not returned.
\<close>

theorem dispatch_404_becomes_503:
  "fst (backend_status 404 (requests_get_args ''http://localhost:8001/subapp1/x'') ())
     = Got \<lparr>status_code = 404, reason = ''-'', resp_url = ''http://localhost:8001/subapp1/x'',
            resp_headers = [], content = ''payload''\<rparr>
   \<and> dispatch (SUBAPP_PORTS default_config) (backend_status 404) local_routes
        (post_request ''/subapp1/x'') ()
      = ([SetRootPath ''/subapp1'',
          HttpCall (requests_get_args ''http://localhost:8001/subapp1/x''),
          LogError ''Error processing request for subapp1''],
         HTTPException 503
           ''Subapp subapp1 is currently unavailable: 404 Client Error: - for url: http://localhost:8001/subapp1/x'',
         ())"
  by (simp add: scenario_defs dispatch_eval str_eval)

text \<open>
  Claim C4, as amended. For every request routed to a known backend the outbound call
  goes to \<^verbatim>\<open>http://localhost:<port><original path>\<close>; it is always a GET, it carries
  neither the body nor the headers of the inbound request, and it has no timeout.
\<close>

theorem dispatch_forwards_bare_get:
  assumes "map_of ports (subapp_name_of request) = Some port"
  shows "http_calls (fst (dispatch ports requests_get call_next request w)) =
           [\<lparr>call_method = ''GET'',
             call_url = ''http://localhost:'' @ str_int port @ req_path request,
             call_data = None, call_headers = None, call_timeout = None\<rparr>]"
  by (simp add: dispatch_known_calls [OF assms] requests_get_args_def backend_url_def)

theorem dispatch_forwards_bare_get_witness:
  "map_of (SUBAPP_PORTS default_config) (subapp_name_of (post_request ''/subapp2/y''))
     = Some 8002
   \<and> http_calls (fst (dispatch (SUBAPP_PORTS default_config) backend_down local_routes
        (post_request ''/subapp2/y'') ()))
      = [\<lparr>call_method = ''GET'', call_url = ''http://localhost:8002/subapp2/y'',
          call_data = None, call_headers = None, call_timeout = None\<rparr>]"
proof -
  have h: "map_of (SUBAPP_PORTS default_config) (subapp_name_of (post_request ''/subapp2/y''))
             = Some 8002"
    by (simp add: scenario_defs dispatch_eval)
  from dispatch_forwards_bare_get [OF h, of backend_down local_routes "()"] h
  show ?thesis by (simp add: post_request_def str_eval)
qed

text \<open>
  The claim as stated fails: a POST with a body and an Authorization header is forwarded
  as a GET with no body, no headers and no timeout.
\<close>

theorem dispatch_post_forwarded_as_get:
  "req_method (post_request ''/subapp1/x'') = ''POST''
   \<and> req_body (post_request ''/subapp1/x'') = ''amount=5''
   \<and> req_headers (post_request ''/subapp1/x'') = [(''Authorization'', ''token'')]
   \<and> http_calls (fst (dispatch (SUBAPP_PORTS default_config) (backend_status 200) local_routes
        (post_request ''/subapp1/x'') ()))
      = [\<lparr>call_method = ''GET'', call_url = ''http://localhost:8001/subapp1/x'',
          call_data = None, call_headers = None, call_timeout = None\<rparr>]"
  by (simp add: scenario_defs dispatch_eval str_eval)

section \<open>Health monitor: one turn and several\<close>

lemma restarts_append: "restarts (xs @ ys) = restarts xs @ restarts ys"
  by (induction xs rule: restarts.induct) simp_all

lemma http_calls_append: "http_calls (xs @ ys) = http_calls xs @ http_calls ys"
  by (induction xs rule: http_calls.induct) simp_all

lemma restarts_probe_all':
  "probe_all requests_get ports w = (es, raised, w') \<Longrightarrow> restarts es = []"
proof (induction ports arbitrary: w es raised w')
  case Nil
  then show ?case by simp
next
  case (Cons a ports)
  obtain n p where a: "a = (n, p)" by (cases a)
  from Cons.prems a show ?case
    by (auto simp: Let_def health_failed_def restarts_append
             split: prod.splits get_outcome.splits if_splits dest: Cons.IH)
qed

lemma restarts_probe_all: "restarts (fst (probe_all requests_get ports w)) = []"
  using restarts_probe_all' [of requests_get ports w] by (cases "probe_all requests_get ports w") simp

lemma restart_service_restarts:
  "restarts (fst (restart_service subprocess_run subapp_name w)) = [subapp_name]"
  by (simp add: restart_service_def Let_def split: prod.splits run_outcome.splits)

lemma restart_service_calls:
  "http_calls (fst (restart_service subprocess_run subapp_name w)) = []"
  by (simp add: restart_service_def Let_def split: prod.splits run_outcome.splits)

lemma tick_restarts:
  "restarts (fst (health_check_tick cfg ports requests_get subprocess_run w)) =
     (case fst (snd (probe_all requests_get ports w)) of
        None \<Rightarrow> []
      | Some (subapp_name, msg) \<Rightarrow> [subapp_name])"
proof (cases "probe_all requests_get ports w")
  case (fields es raised w')
  have p: "restarts es = []" using restarts_probe_all [of requests_get ports w] fields by simp
  show ?thesis
  proof (cases raised)
    case None
    with fields p show ?thesis by (simp add: health_check_tick_def restarts_append)
  next
    case (Some a)
    obtain n m where a: "a = (n, m)" by (cases a)
    obtain rs e w'' where r: "restart_service subprocess_run n w' = (rs, e, w'')"
      by (cases "restart_service subprocess_run n w'")
    have rr: "restarts rs = [n]" using restart_service_restarts [of subprocess_run n w'] r by simp
    from fields Some a r p rr show ?thesis
      by (cases e) (simp_all add: health_check_tick_def Let_def restarts_append)
  qed
qed

lemma tick_calls:
  "http_calls (fst (health_check_tick cfg ports requests_get subprocess_run w)) =
     http_calls (fst (probe_all requests_get ports w))"
proof (cases "probe_all requests_get ports w")
  case (fields es raised w')
  show ?thesis
  proof (cases raised)
    case None
    with fields show ?thesis by (simp add: health_check_tick_def http_calls_append)
  next
    case (Some a)
    obtain n m where a: "a = (n, m)" by (cases a)
    obtain rs e w'' where r: "restart_service subprocess_run n w' = (rs, e, w'')"
      by (cases "restart_service subprocess_run n w'")
    have rr: "http_calls rs = []" using restart_service_calls [of subprocess_run n w'] r by simp
    from fields Some a r rr show ?thesis
      by (cases e) (simp_all add: health_check_tick_def Let_def http_calls_append)
  qed
qed

lemma probe_all_complete:
  "probe_all requests_get ports w = (es, None, w') \<Longrightarrow>
     map call_url (http_calls es) = map (\<lambda>(n, p). health_url p) ports"
proof (induction ports arbitrary: w es w')
  case Nil
  then show ?case by simp
next
  case (Cons a ports)
  obtain n p where a: "a = (n, p)" by (cases a)
  from Cons.prems a show ?case
    by (auto simp: Let_def health_failed_def requests_get_args_def http_calls_append
             split: prod.splits get_outcome.splits if_splits dest: Cons.IH)
qed

lemma probe_all_raised_at:
  "probe_all requests_get ports w = (es, Some (name, msg), w') \<Longrightarrow>
     \<exists>pre port post es0 w0.
        ports = pre @ (name, port) # post \<and>
        probe_all requests_get pre w = (es0, None, w0) \<and>
        requests_get (requests_get_args (health_url port)) w0 = (RequestException msg, w') \<and>
        map call_url (http_calls es) = map (\<lambda>(n, p). health_url p) (pre @ [(name, port)])"
proof (induction ports arbitrary: w es w')
  case Nil
  then show ?case by simp
next
  case (Cons a ports)
  obtain n p where a: "a = (n, p)" by (cases a)
  show ?case
  proof (cases "requests_get (requests_get_args (health_url p)) w")
    case (Pair out w1)
    show ?thesis
    proof (cases out)
      case (RequestException m)
      with Cons.prems a Pair have "name = n" "m = msg" "w1 = w'" and
        "es = [HttpCall (requests_get_args (health_url p))]"
        by (simp_all add: Let_def)
      then have "a # ports = [] @ (name, p) # ports \<and>
        probe_all requests_get [] w = ([], None, w) \<and>
        requests_get (requests_get_args (health_url p)) w = (RequestException msg, w') \<and>
        map call_url (http_calls es) = map (\<lambda>(n, p). health_url p) ([] @ [(name, p)])"
        using a Pair RequestException by (simp add: requests_get_args_def)
      then show ?thesis by blast
    next
      case (Got r)
      obtain es2 where rest: "probe_all requests_get ports w1 = (es2, Some (name, msg), w')"
        and es: "es = HttpCall (requests_get_args (health_url p))
                  # (if status_code r \<noteq> 200 then [health_failed n (status_code r)] else []) @ es2"
        using Cons.prems a Pair Got by (auto simp: Let_def split: prod.splits)
      from Cons.IH [OF rest] obtain pre port post es0 w0 where
        ih: "ports = pre @ (name, port) # post"
            "probe_all requests_get pre w1 = (es0, None, w0)"
            "requests_get (requests_get_args (health_url port)) w0 = (RequestException msg, w')"
            "map call_url (http_calls es2) = map (\<lambda>(n, p). health_url p) (pre @ [(name, port)])"
        by blast
      have "a # ports = (a # pre) @ (name, port) # post \<and>
            probe_all requests_get (a # pre) w =
              (HttpCall (requests_get_args (health_url p))
                 # (if status_code r \<noteq> 200 then [health_failed n (status_code r)] else []) @ es0,
               None, w0) \<and>
            requests_get (requests_get_args (health_url port)) w0 = (RequestException msg, w') \<and>
            map call_url (http_calls es) = map (\<lambda>(n, p). health_url p) ((a # pre) @ [(name, port)])"
        using ih es a Pair Got by (simp add: health_failed_def requests_get_args_def)
      then show ?thesis by blast
    qed
  qed
qed

lemma probe_all_logs_non_200:
  "probe_all requests_get pre w = (es0, None, w0) \<Longrightarrow>
   requests_get (requests_get_args (health_url port)) w0 = (Got r, w1) \<Longrightarrow>
   status_code r \<noteq> 200 \<Longrightarrow>
   health_failed name (status_code r)
     \<in> set (fst (probe_all requests_get (pre @ (name, port) # post) w))"
proof (induction pre arbitrary: w es0)
  case Nil
  then show ?case by (simp add: Let_def split: prod.splits)
next
  case (Cons a pre)
  obtain n p where a: "a = (n, p)" by (cases a)
  from Cons.prems(1) a obtain r0 wa es1 where
    g: "requests_get (requests_get_args (health_url p)) w = (Got r0, wa)" and
    rest: "probe_all requests_get pre wa = (es1, None, w0)"
    by (auto simp: Let_def split: prod.splits get_outcome.splits)
  from Cons.IH [OF rest Cons.prems(2,3)]
  have "health_failed name (status_code r)
          \<in> set (fst (probe_all requests_get (pre @ (name, port) # post) wa))" .
  with a g show ?case by (auto simp: Let_def split: prod.splits)
qed

lemma tick_logs:
  "set (fst (probe_all requests_get ports w))
     \<subseteq> set (fst (health_check_tick cfg ports requests_get subprocess_run w))"
  by (auto simp: health_check_tick_def Let_def split: prod.splits option.splits)

lemma tick_logs_raise:
  "probe_all requests_get ports w = (es, Some (name, msg), w') \<Longrightarrow>
   LogError (''Error during health check: '' @ msg)
     \<in> set (fst (health_check_tick cfg ports requests_get subprocess_run w))"
  by (auto simp: health_check_tick_def Let_def split: prod.splits option.splits)

lemma two_ticks:
  "health_check_tick cfg ports requests_get subprocess_run w = (es1, None, w1) \<Longrightarrow>
   restarts (fst (health_check (Suc (Suc 0)) cfg ports requests_get subprocess_run w)) =
     restarts es1 @ restarts (fst (health_check_tick cfg ports requests_get subprocess_run w1))"
  by (auto simp: restarts_append split: prod.splits option.splits)

lemmas health_eval =
  health_check_tick_def restart_service_def health_url_def health_failed_def
  requests_get_args_def Let_def
  subapp1_unhealthy_def subapp1_unreachable_def compose_ok_def compose_fails_def healthy_def
  default_config_def SUBAPP_PORTS_def

lemma unreachable_probe:
  "probe_all subapp1_unreachable (SUBAPP_PORTS default_config) () =
     ([HttpCall (requests_get_args ''http://localhost:8000/health''),
       HttpCall (requests_get_args ''http://localhost:8001/health'')],
      Some (''subapp1'', ''connection refused''), ())"
  by (simp add: health_eval str_eval)

lemma unreachable_tick:
  "health_check_tick default_config (SUBAPP_PORTS default_config)
       subapp1_unreachable compose_ok () =
     ([HttpCall (requests_get_args ''http://localhost:8000/health''),
       HttpCall (requests_get_args ''http://localhost:8001/health''),
       LogError ''Error during health check: connection refused'',
       Run [''docker-compose'', ''restart'', ''subapp1''],
       LogInfo ''Restarted service: subapp1'',
       Sleep 60], None, ())"
  by (simp add: health_eval str_eval)

lemma unhealthy_probe:
  "probe_all subapp1_unhealthy (SUBAPP_PORTS default_config) () =
     ([HttpCall (requests_get_args ''http://localhost:8000/health''),
       HttpCall (requests_get_args ''http://localhost:8001/health''),
       LogError ''Health check failed for subapp1. Status code: 500'',
       HttpCall (requests_get_args ''http://localhost:8002/health'')],
      None, ())"
  by (simp add: health_eval str_eval)

lemma answered_probe_all:
  "probes_answered requests_get ports w = Some w' \<Longrightarrow>
     \<exists>es. probe_all requests_get ports w = (es, None, w')"
proof (induction ports arbitrary: w)
  case Nil
  then show ?case by simp
next
  case (Cons a ports)
  obtain n p where a: "a = (n, p)" by (cases a)
  from Cons.prems a obtain r wa where
    g: "requests_get (requests_get_args (health_url p)) w = (Got r, wa)" and
    rest: "probes_answered requests_get ports wa = Some w'"
    by (auto split: prod.splits get_outcome.splits)
  from Cons.IH [OF rest] obtain es where "probe_all requests_get ports wa = (es, None, w')"
    by blast
  with a g show ?case by (simp add: Let_def)
qed

lemma raise_probe_all:
  "probes_answered requests_get pre w = Some w0 \<Longrightarrow>
   requests_get (requests_get_args (health_url port)) w0 = (RequestException msg, w1) \<Longrightarrow>
     \<exists>es. probe_all requests_get (pre @ (name, port) # post) w = (es, Some (name, msg), w1)
        \<and> map call_url (http_calls es) = map (\<lambda>(n, p). health_url p) (pre @ [(name, port)])"
proof (induction pre arbitrary: w)
  case Nil
  then show ?case by (simp add: Let_def requests_get_args_def)
next
  case (Cons a pre)
  obtain n p where a: "a = (n, p)" by (cases a)
  from Cons.prems(1) a obtain r wa where
    g: "requests_get (requests_get_args (health_url p)) w = (Got r, wa)" and
    rest: "probes_answered requests_get pre wa = Some w0"
    by (auto split: prod.splits get_outcome.splits)
  from Cons.IH [OF rest Cons.prems(2)] obtain es where
    ih: "probe_all requests_get (pre @ (name, port) # post) wa = (es, Some (name, msg), w1)"
        "map call_url (http_calls es) = map (\<lambda>(n, p). health_url p) (pre @ [(name, port)])"
    by blast
  with a g show ?case by (simp add: Let_def health_failed_def requests_get_args_def)
qed

lemma answered_or_raise:
  "(\<exists>w'. probes_answered requests_get ports w = Some w')
   \<or> (\<exists>pre name port post w0 msg w1.
         ports = pre @ (name, port) # post
         \<and> probes_answered requests_get pre w = Some w0
         \<and> requests_get (requests_get_args (health_url port)) w0 = (RequestException msg, w1))"
proof (induction ports arbitrary: w)
  case Nil
  then show ?case by simp
next
  case (Cons a ports)
  obtain n p where a: "a = (n, p)" by (cases a)
  obtain out wa where g: "requests_get (requests_get_args (health_url p)) w = (out, wa)"
    by (cases "requests_get (requests_get_args (health_url p)) w")
  show ?case
  proof (cases out)
    case (RequestException m)
    with a g have "a # ports = [] @ (n, p) # ports
        \<and> probes_answered requests_get [] w = Some w
        \<and> requests_get (requests_get_args (health_url p)) w = (RequestException m, wa)"
      by simp
    then show ?thesis by blast
  next
    case (Got r)
    from Cons.IH [of wa] show ?thesis
    proof
      assume "\<exists>w'. probes_answered requests_get ports wa = Some w'"
      with a g Got show ?thesis by simp
    next
      assume "\<exists>pre name port post w0 msg w1.
         ports = pre @ (name, port) # post
         \<and> probes_answered requests_get pre wa = Some w0
         \<and> requests_get (requests_get_args (health_url port)) w0 = (RequestException msg, w1)"
      then obtain pre name port post w0 msg w1 where
        "ports = pre @ (name, port) # post"
        "probes_answered requests_get pre wa = Some w0"
        "requests_get (requests_get_args (health_url port)) w0 = (RequestException msg, w1)"
        by blast
      with a g Got have "a # ports = (a # pre) @ (name, port) # post
         \<and> probes_answered requests_get (a # pre) w = Some w0
         \<and> requests_get (requests_get_args (health_url port)) w0 = (RequestException msg, w1)"
        by simp
      then show ?thesis by blast
    qed
  qed
qed

lemma tick_after_raise:
  "probe_all requests_get ports w = (es, Some (name, msg), w1) \<Longrightarrow>
   subprocess_run [''docker-compose'', ''restart'', name] w1 = (Completed, w2) \<Longrightarrow>
     \<exists>es1. health_check_tick cfg ports requests_get subprocess_run w = (es1, None, w2)"
  by (simp add: health_check_tick_def restart_service_def Let_def)

lemmas answered_eval =
  health_url_def requests_get_args_def subapp1_unhealthy_def subapp1_unreachable_def
  healthy_def compose_ok_def default_config_def SUBAPP_PORTS_def

text \<open>
  Claim C10. In one turn of the health loop, when the backends before some backend all
  answer their probes and the probe of that backend raises a network error, the probes
  made in the turn are those of the backends up to and including it, so that no backend
  after it in the iteration order is probed, and exactly one restart is invoked, for the
  backend whose probe raised. When every backend answers its probe, with whatever status
  code, every backend is probed and no restart is invoked: a probe that completes with a
  status other than 200 triggers none. A turn never invokes more than one restart, and
  every turn is of one of the two kinds.
\<close>

theorem health_tick_stops_at_first_raise:
  "(\<forall>pre name port post w0 msg w1.
      ports = pre @ (name, port) # post
      \<and> probes_answered requests_get pre w = Some w0
      \<and> requests_get (requests_get_args (health_url port)) w0 = (RequestException msg, w1)
      \<longrightarrow>
        map call_url
          (http_calls (fst (health_check_tick cfg ports requests_get subprocess_run w)))
          = map (\<lambda>(n, p). health_url p) (pre @ [(name, port)])
        \<and> restarts (fst (health_check_tick cfg ports requests_get subprocess_run w)) = [name])
   \<and> (\<forall>w'.
      probes_answered requests_get ports w = Some w' \<longrightarrow>
        map call_url
          (http_calls (fst (health_check_tick cfg ports requests_get subprocess_run w)))
          = map (\<lambda>(n, p). health_url p) ports
        \<and> restarts (fst (health_check_tick cfg ports requests_get subprocess_run w)) = [])
   \<and> length (restarts (fst (health_check_tick cfg ports requests_get subprocess_run w))) \<le> 1
   \<and> ((\<exists>w'. probes_answered requests_get ports w = Some w')
       \<or> (\<exists>pre name port post w0 msg w1.
             ports = pre @ (name, port) # post
             \<and> probes_answered requests_get pre w = Some w0
             \<and> requests_get (requests_get_args (health_url port)) w0
                 = (RequestException msg, w1)))"
proof (intro conjI allI impI; (elim conjE)?)
  fix pre name port post w0 msg w1
  assume p: "ports = pre @ (name, port) # post"
    and a: "probes_answered requests_get pre w = Some w0"
    and r: "requests_get (requests_get_args (health_url port)) w0 = (RequestException msg, w1)"
  from raise_probe_all [OF a r, of name post] p obtain es where
    e: "probe_all requests_get ports w = (es, Some (name, msg), w1)"
       "map call_url (http_calls es) = map (\<lambda>(n, p). health_url p) (pre @ [(name, port)])"
    by blast
  from e show "map call_url
          (http_calls (fst (health_check_tick cfg ports requests_get subprocess_run w)))
          = map (\<lambda>(n, p). health_url p) (pre @ [(name, port)])"
    by (simp add: tick_calls)
  from e show "restarts (fst (health_check_tick cfg ports requests_get subprocess_run w)) = [name]"
    by (simp add: tick_restarts)
next
  fix w'
  assume "probes_answered requests_get ports w = Some w'"
  from answered_probe_all [OF this] obtain es where
    e: "probe_all requests_get ports w = (es, None, w')"
    by blast
  from probe_all_complete [OF e] e show "map call_url
          (http_calls (fst (health_check_tick cfg ports requests_get subprocess_run w)))
          = map (\<lambda>(n, p). health_url p) ports"
    by (simp add: tick_calls)
  from e show "restarts (fst (health_check_tick cfg ports requests_get subprocess_run w)) = []"
    by (simp add: tick_restarts)
next
  show "length (restarts (fst (health_check_tick cfg ports requests_get subprocess_run w))) \<le> 1"
    by (simp add: tick_restarts split: option.splits prod.splits)
next
  show "(\<exists>w'. probes_answered requests_get ports w = Some w')
       \<or> (\<exists>pre name port post w0 msg w1.
             ports = pre @ (name, port) # post
             \<and> probes_answered requests_get pre w = Some w0
             \<and> requests_get (requests_get_args (health_url port)) w0
                 = (RequestException msg, w1))"
    by (rule answered_or_raise)
qed

theorem health_tick_stops_at_first_raise_witness:
  "SUBAPP_PORTS default_config = [(''main'', 8000)] @ (''subapp1'', 8001) # [(''subapp2'', 8002)]
   \<and> probes_answered subapp1_unreachable [(''main'', 8000)] () = Some ()
   \<and> subapp1_unreachable (requests_get_args (health_url 8001)) ()
       = (RequestException ''connection refused'', ())
   \<and> map call_url (http_calls (fst (health_check_tick default_config
         (SUBAPP_PORTS default_config) subapp1_unreachable compose_ok ())))
      = [''http://localhost:8000/health'', ''http://localhost:8001/health'']
   \<and> restarts (fst (health_check_tick default_config (SUBAPP_PORTS default_config)
         subapp1_unreachable compose_ok ())) = [''subapp1'']
   \<and> probes_answered subapp1_unhealthy (SUBAPP_PORTS default_config) () = Some ()
   \<and> map call_url (http_calls (fst (health_check_tick default_config
         (SUBAPP_PORTS default_config) subapp1_unhealthy compose_ok ())))
      = [''http://localhost:8000/health'', ''http://localhost:8001/health'',
         ''http://localhost:8002/health'']
   \<and> restarts (fst (health_check_tick default_config (SUBAPP_PORTS default_config)
         subapp1_unhealthy compose_ok ())) = []"
proof -
  note a = health_tick_stops_at_first_raise
             [of "SUBAPP_PORTS default_config" subapp1_unreachable "()"
                 default_config compose_ok]
  note b = health_tick_stops_at_first_raise
             [of "SUBAPP_PORTS default_config" subapp1_unhealthy "()"
                 default_config compose_ok]
  have h1: "SUBAPP_PORTS default_config
              = [(''main'', 8000)] @ (''subapp1'', 8001) # [(''subapp2'', 8002)]"
    by (simp add: SUBAPP_PORTS_def default_config_def)
  have h2: "probes_answered subapp1_unreachable [(''main'', 8000)] () = Some ()"
    by (simp add: answered_eval str_eval)
  have h3: "subapp1_unreachable (requests_get_args (health_url 8001)) ()
              = (RequestException ''connection refused'', ())"
    by (simp add: answered_eval str_eval)
  have h4: "probes_answered subapp1_unhealthy (SUBAPP_PORTS default_config) () = Some ()"
    by (simp add: answered_eval str_eval)
  have u: "map (\<lambda>(n, p). health_url p) [(''main'', 8000), (''subapp1'', 8001), (''subapp2'', 8002)]
             = [''http://localhost:8000/health'', ''http://localhost:8001/health'',
                ''http://localhost:8002/health'']"
    by (simp add: health_url_def str_eval)
  from a [THEN conjunct1, rule_format, OF conjI [OF h1 conjI [OF h2 h3]]] u
  have 1: "map call_url (http_calls (fst (health_check_tick default_config
             (SUBAPP_PORTS default_config) subapp1_unreachable compose_ok ())))
           = [''http://localhost:8000/health'', ''http://localhost:8001/health'']
         \<and> restarts (fst (health_check_tick default_config (SUBAPP_PORTS default_config)
             subapp1_unreachable compose_ok ())) = [''subapp1'']"
    by simp
  from b [THEN conjunct2, THEN conjunct1, rule_format, OF h4] u
  have 2: "map call_url (http_calls (fst (health_check_tick default_config
             (SUBAPP_PORTS default_config) subapp1_unhealthy compose_ok ())))
           = [''http://localhost:8000/health'', ''http://localhost:8001/health'',
              ''http://localhost:8002/health'']
         \<and> restarts (fst (health_check_tick default_config (SUBAPP_PORTS default_config)
             subapp1_unhealthy compose_ok ())) = []"
    by (simp add: SUBAPP_PORTS_def default_config_def)
  from h1 h2 h3 h4 1 2 show ?thesis by blast
qed

text \<open>
  Claim C5, as amended. In one turn of the health loop, a backend that answers its probe
  with a status other than 200 (the backends before it having answered theirs) is logged
  as failed, and when every backend answers, with whatever status, no restart is invoked.
  When the backends before some backend answer and the probe of that backend raises a
  network error, the error is logged and exactly one restart is invoked, for that
  backend. The monitor keeps nothing between turns: when this happens in two turns in a
  row, the restart command of the first turn having completed, two restarts are invoked,
  with no dedup and no backoff.
\<close>

theorem health_tick_restarts_only_after_raise:
  "(\<forall>pre name port post w0 r w1.
      ports = pre @ (name, port) # post
      \<and> probes_answered requests_get pre w = Some w0
      \<and> requests_get (requests_get_args (health_url port)) w0 = (Got r, w1)
      \<and> status_code r \<noteq> 200 \<longrightarrow>
        health_failed name (status_code r)
          \<in> set (fst (health_check_tick cfg ports requests_get subprocess_run w)))
   \<and> (\<forall>w'.
      probes_answered requests_get ports w = Some w' \<longrightarrow>
        restarts (fst (health_check_tick cfg ports requests_get subprocess_run w)) = [])
   \<and> (\<forall>pre name port post w0 msg w1.
      ports = pre @ (name, port) # post
      \<and> probes_answered requests_get pre w = Some w0
      \<and> requests_get (requests_get_args (health_url port)) w0 = (RequestException msg, w1)
      \<longrightarrow>
        LogError (''Error during health check: '' @ msg)
          \<in> set (fst (health_check_tick cfg ports requests_get subprocess_run w))
        \<and> restarts (fst (health_check_tick cfg ports requests_get subprocess_run w)) = [name])
   \<and> (\<forall>pre1 n1 p1 post1 w0 m1 w1 w2 pre2 n2 p2 post2 w3 m2 w4.
      ports = pre1 @ (n1, p1) # post1
      \<and> probes_answered requests_get pre1 w = Some w0
      \<and> requests_get (requests_get_args (health_url p1)) w0 = (RequestException m1, w1)
      \<and> subprocess_run [''docker-compose'', ''restart'', n1] w1 = (Completed, w2)
      \<and> ports = pre2 @ (n2, p2) # post2
      \<and> probes_answered requests_get pre2 w2 = Some w3
      \<and> requests_get (requests_get_args (health_url p2)) w3 = (RequestException m2, w4)
      \<longrightarrow>
        restarts (fst (health_check (Suc (Suc 0)) cfg ports requests_get subprocess_run w))
          = [n1, n2])"
proof (intro conjI allI impI; (elim conjE)?)
  fix pre name port post w0 r w1
  assume p: "ports = pre @ (name, port) # post"
    and a: "probes_answered requests_get pre w = Some w0"
    and g: "requests_get (requests_get_args (health_url port)) w0 = (Got r, w1)"
    and s: "status_code r \<noteq> 200"
  from answered_probe_all [OF a] obtain es0 where
    "probe_all requests_get pre w = (es0, None, w0)" by blast
  from probe_all_logs_non_200 [OF this g s, of name post] p
  show "health_failed name (status_code r)
          \<in> set (fst (health_check_tick cfg ports requests_get subprocess_run w))"
    using tick_logs [of requests_get ports w cfg subprocess_run] by blast
next
  fix w'
  assume "probes_answered requests_get ports w = Some w'"
  from answered_probe_all [OF this]
  show "restarts (fst (health_check_tick cfg ports requests_get subprocess_run w)) = []"
    by (auto simp: tick_restarts)
next
  fix pre name port post w0 msg w1
  assume p: "ports = pre @ (name, port) # post"
    and a: "probes_answered requests_get pre w = Some w0"
    and r: "requests_get (requests_get_args (health_url port)) w0 = (RequestException msg, w1)"
  from raise_probe_all [OF a r, of name post] p obtain es where
    e: "probe_all requests_get ports w = (es, Some (name, msg), w1)"
    by blast
  from tick_logs_raise [OF e]
  show "LogError (''Error during health check: '' @ msg)
          \<in> set (fst (health_check_tick cfg ports requests_get subprocess_run w))" .
  from e show "restarts (fst (health_check_tick cfg ports requests_get subprocess_run w)) = [name]"
    by (simp add: tick_restarts)
next
  fix pre1 n1 p1 post1 w0 m1 w1 w2 pre2 n2 p2 post2 w3 m2 w4
  assume p1: "ports = pre1 @ (n1, p1) # post1"
    and a1: "probes_answered requests_get pre1 w = Some w0"
    and r1: "requests_get (requests_get_args (health_url p1)) w0 = (RequestException m1, w1)"
    and c1: "subprocess_run [''docker-compose'', ''restart'', n1] w1 = (Completed, w2)"
    and p2: "ports = pre2 @ (n2, p2) # post2"
    and a2: "probes_answered requests_get pre2 w2 = Some w3"
    and r2: "requests_get (requests_get_args (health_url p2)) w3 = (RequestException m2, w4)"
  from raise_probe_all [OF a1 r1, of n1 post1] p1 obtain es where
    e1: "probe_all requests_get ports w = (es, Some (n1, m1), w1)"
    by blast
  from raise_probe_all [OF a2 r2, of n2 post2] p2 obtain es' where
    e2: "probe_all requests_get ports w2 = (es', Some (n2, m2), w4)"
    by blast
  from tick_after_raise [where subprocess_run = subprocess_run and cfg = cfg, OF e1 c1]
  obtain es1 where
    t: "health_check_tick cfg ports requests_get subprocess_run w = (es1, None, w2)"
    by blast
  have "restarts es1 = [n1]"
    using tick_restarts [of cfg ports requests_get subprocess_run w] t e1 by simp
  moreover have
    "restarts (fst (health_check_tick cfg ports requests_get subprocess_run w2)) = [n2]"
    using e2 by (simp add: tick_restarts)
  ultimately
  show "restarts (fst (health_check (Suc (Suc 0)) cfg ports requests_get subprocess_run w))
          = [n1, n2]"
    using two_ticks [OF t] by simp
qed

theorem health_tick_restarts_only_after_raise_witness:
  "SUBAPP_PORTS default_config = [(''main'', 8000)] @ (''subapp1'', 8001) # [(''subapp2'', 8002)]
   \<and> probes_answered subapp1_unhealthy [(''main'', 8000)] () = Some ()
   \<and> subapp1_unhealthy (requests_get_args (health_url 8001)) ()
       = (Got \<lparr>status_code = 500, reason = ''Internal Server Error'',
            resp_url = ''http://localhost:8001/health'', resp_headers = [],
            content = ''healthy''\<rparr>, ())
   \<and> health_failed ''subapp1'' 500
       \<in> set (fst (health_check_tick default_config (SUBAPP_PORTS default_config)
             subapp1_unhealthy compose_ok ()))
   \<and> probes_answered subapp1_unhealthy (SUBAPP_PORTS default_config) () = Some ()
   \<and> restarts (fst (health_check_tick default_config (SUBAPP_PORTS default_config)
             subapp1_unhealthy compose_ok ())) = []
   \<and> probes_answered subapp1_unreachable [(''main'', 8000)] () = Some ()
   \<and> subapp1_unreachable (requests_get_args (health_url 8001)) ()
       = (RequestException ''connection refused'', ())
   \<and> compose_ok [''docker-compose'', ''restart'', ''subapp1''] () = (Completed, ())
   \<and> LogError ''Error during health check: connection refused''
       \<in> set (fst (health_check_tick default_config (SUBAPP_PORTS default_config)
             subapp1_unreachable compose_ok ()))
   \<and> restarts (fst (health_check_tick default_config (SUBAPP_PORTS default_config)
             subapp1_unreachable compose_ok ())) = [''subapp1'']
   \<and> restarts (fst (health_check (Suc (Suc 0)) default_config (SUBAPP_PORTS default_config)
             subapp1_unreachable compose_ok ())) = [''subapp1'', ''subapp1'']"
proof -
  let ?r = "\<lparr>status_code = 500, reason = ''Internal Server Error'',
            resp_url = ''http://localhost:8001/health'', resp_headers = [],
            content = ''healthy''\<rparr>"
  note a = health_tick_restarts_only_after_raise
             [of "SUBAPP_PORTS default_config" subapp1_unhealthy "()"
                 default_config compose_ok]
  note b = health_tick_restarts_only_after_raise
             [of "SUBAPP_PORTS default_config" subapp1_unreachable "()"
                 default_config compose_ok]
  have h1: "SUBAPP_PORTS default_config
              = [(''main'', 8000)] @ (''subapp1'', 8001) # [(''subapp2'', 8002)]"
    by (simp add: SUBAPP_PORTS_def default_config_def)
  have h2: "probes_answered subapp1_unhealthy [(''main'', 8000)] () = Some ()"
    by (simp add: answered_eval str_eval)
  have h3: "subapp1_unhealthy (requests_get_args (health_url 8001)) () = (Got ?r, ())"
    by (simp add: answered_eval str_eval)
  have h4: "status_code ?r \<noteq> 200" by simp
  have h5: "probes_answered subapp1_unhealthy (SUBAPP_PORTS default_config) () = Some ()"
    by (simp add: answered_eval str_eval)
  have h6: "probes_answered subapp1_unreachable [(''main'', 8000)] () = Some ()"
    by (simp add: answered_eval str_eval)
  have h7: "subapp1_unreachable (requests_get_args (health_url 8001)) ()
              = (RequestException ''connection refused'', ())"
    by (simp add: answered_eval str_eval)
  have h8: "compose_ok [''docker-compose'', ''restart'', ''subapp1''] () = (Completed, ())"
    by (simp add: compose_ok_def)
  have 1: "health_failed ''subapp1'' (status_code ?r)
       \<in> set (fst (health_check_tick default_config (SUBAPP_PORTS default_config)
             subapp1_unhealthy compose_ok ()))"
    by (rule a [THEN conjunct1, rule_format,
                OF conjI [OF h1 conjI [OF h2 conjI [OF h3 h4]]]])
  have 2: "restarts (fst (health_check_tick default_config (SUBAPP_PORTS default_config)
             subapp1_unhealthy compose_ok ())) = []"
    by (rule a [THEN conjunct2, THEN conjunct1, rule_format, OF h5])
  have 3: "LogError (''Error during health check: '' @ ''connection refused'')
       \<in> set (fst (health_check_tick default_config (SUBAPP_PORTS default_config)
             subapp1_unreachable compose_ok ()))
     \<and> restarts (fst (health_check_tick default_config (SUBAPP_PORTS default_config)
             subapp1_unreachable compose_ok ())) = [''subapp1'']"
    by (rule b [THEN conjunct2, THEN conjunct2, THEN conjunct1, rule_format,
                OF conjI [OF h1 conjI [OF h6 h7]]])
  have 4: "restarts (fst (health_check (Suc (Suc 0)) default_config (SUBAPP_PORTS default_config)
             subapp1_unreachable compose_ok ())) = [''subapp1'', ''subapp1'']"
    by (rule b [THEN conjunct2, THEN conjunct2, THEN conjunct2, rule_format,
                OF conjI [OF h1 conjI [OF h6 conjI [OF h7 conjI [OF h8
                   conjI [OF h1 conjI [OF h6 h7]]]]]]])
  from h1 h2 h3 h5 h6 h7 h8 1 2 3 4 show ?thesis by simp
qed

text \<open>
  The claim as stated fails for a probe that returns a non-2xx response: with
  \<^verbatim>\<open>subapp1\<close> answering 500 to its health probe, the turn logs the failure and
  invokes no restart.
\<close>

theorem health_non_200_is_not_restarted:
  "fst (subapp1_unhealthy (requests_get_args (health_url (SUBAPP1_PORT default_config))) ())
     = Got \<lparr>status_code = 500, reason = ''Internal Server Error'',
            resp_url = ''http://localhost:8001/health'', resp_headers = [],
            content = ''healthy''\<rparr>
   \<and> health_check_tick default_config (SUBAPP_PORTS default_config)
       subapp1_unhealthy compose_ok () =
     ([HttpCall (requests_get_args ''http://localhost:8000/health''),
       HttpCall (requests_get_args ''http://localhost:8001/health''),
       LogError ''Health check failed for subapp1. Status code: 500'',
       HttpCall (requests_get_args ''http://localhost:8002/health''),
       Sleep 60], None, ())
   \<and> restarts (fst (health_check_tick default_config (SUBAPP_PORTS default_config)
       subapp1_unhealthy compose_ok ())) = []"
  by (simp add: health_eval str_eval)

section \<open>The manifest\<close>

lemma update_fresh: "k \<notin> fst ` set xs \<Longrightarrow> AList.update k v xs = xs @ [(k, v)]"
  by (induction xs) auto

lemma foldl_update_distinct:
  "distinct (map fst ports) \<Longrightarrow> fst ` set acc \<inter> fst ` set ports = {} \<Longrightarrow>
   foldl (\<lambda>services (subapp_name, port). AList.update subapp_name (f subapp_name port) services)
     acc ports
   = acc @ map (\<lambda>(n, p). (n, f n p)) ports"
proof (induction ports arbitrary: acc)
  case Nil
  then show ?case by simp
next
  case (Cons a ports)
  obtain n p where a: "a = (n, p)" by (cases a)
  from Cons.prems a have fresh: "n \<notin> fst ` set acc" by auto
  from Cons.prems a have d: "distinct (map fst ports)" and
    disj: "fst ` set (acc @ [(n, f n p)]) \<inter> fst ` set ports = {}"
    by (auto simp: image_iff)
  from Cons.IH [OF d disj] a fresh show ?case by (simp add: update_fresh)
qed

lemma compose_services:
  assumes "distinct (map fst ports)"
  shows "cmp_services (compose_dict cfg ports)
           = map (\<lambda>(n, p). (n, service_entry (SCALING_FACTOR cfg) n p)) ports"
  using foldl_update_distinct [OF assms, of "[]" "service_entry (SCALING_FACTOR cfg)"]
  by (simp add: compose_dict_def)

text \<open>
  Claim C8. For a route table (a dict, so with distinct names) and a scaling factor, the
  manifest has exactly one service per route entry, under the names and in the order of
  the table; every service has the scaling factor as its replica count, the restart
  policy (condition on-failure, delay 5s, at most 3 attempts, window 120s) and a health
  probe (the curl command on the entry's port, interval 30s, timeout 10s, 3 retries,
  start period 10s); and this manifest is what \<^verbatim>\<open>generate_docker_compose\<close> writes to
  the compose file. The example is the table of main on 8000 and billing on 8001 with
  scaling factor 2: two services, each with 2 replicas.
\<close>

theorem compose_has_one_service_per_route:
  assumes "distinct (map fst ports)"
  shows "map fst (cmp_services (compose_dict cfg ports)) = map fst ports
         \<and> (\<forall>(name, port) \<in> set ports.
              \<exists>svc. map_of (cmp_services (compose_dict cfg ports)) name = Some svc
                \<and> dp_replicas (svc_deploy svc) = SCALING_FACTOR cfg
                \<and> dp_restart_policy (svc_deploy svc)
                    = \<lparr>rp_condition = ''on-failure'', rp_delay = ''5s'',
                       rp_max_attempts = 3, rp_window = ''120s''\<rparr>
                \<and> svc_healthcheck svc
                    = \<lparr>hc_test = [''CMD-SHELL'',
                          ''curl --fail http://localhost:'' @ str_int port @ ''/health || exit 1''],
                       hc_interval = ''30s'', hc_timeout = ''10s'', hc_retries = 3,
                       hc_start_period = ''10s''\<rparr>)
         \<and> (\<forall>w. hd (fst (generate_docker_compose cfg ports write_file w))
                  = WriteFile (DOCKER_COMPOSE_FILE cfg) (compose_dict cfg ports))"
proof (intro conjI)
  note s = compose_services [OF assms, of cfg]
  show "map fst (cmp_services (compose_dict cfg ports)) = map fst ports"
    by (simp add: s comp_def case_prod_unfold)
  show "\<forall>(name, port) \<in> set ports.
              \<exists>svc. map_of (cmp_services (compose_dict cfg ports)) name = Some svc
                \<and> dp_replicas (svc_deploy svc) = SCALING_FACTOR cfg
                \<and> dp_restart_policy (svc_deploy svc)
                    = \<lparr>rp_condition = ''on-failure'', rp_delay = ''5s'',
                       rp_max_attempts = 3, rp_window = ''120s''\<rparr>
                \<and> svc_healthcheck svc
                    = \<lparr>hc_test = [''CMD-SHELL'',
                          ''curl --fail http://localhost:'' @ str_int port @ ''/health || exit 1''],
                       hc_interval = ''30s'', hc_timeout = ''10s'', hc_retries = 3,
                       hc_start_period = ''10s''\<rparr>"
  proof (clarify)
    fix name port
    assume m: "(name, port) \<in> set ports"
    have "map_of (map (\<lambda>(n, p). (n, service_entry (SCALING_FACTOR cfg) n p)) ports) name
            = Some (service_entry (SCALING_FACTOR cfg) name port)"
      using assms m
    proof (induction ports)
      case Nil
      then show ?case by simp
    next
      case (Cons a ports)
      then show ?case by (cases a) (auto simp: image_iff)
    qed
    then show "\<exists>svc. map_of (cmp_services (compose_dict cfg ports)) name = Some svc
                \<and> dp_replicas (svc_deploy svc) = SCALING_FACTOR cfg
                \<and> dp_restart_policy (svc_deploy svc)
                    = \<lparr>rp_condition = ''on-failure'', rp_delay = ''5s'',
                       rp_max_attempts = 3, rp_window = ''120s''\<rparr>
                \<and> svc_healthcheck svc
                    = \<lparr>hc_test = [''CMD-SHELL'',
                          ''curl --fail http://localhost:'' @ str_int port @ ''/health || exit 1''],
                       hc_interval = ''30s'', hc_timeout = ''10s'', hc_retries = 3,
                       hc_start_period = ''10s''\<rparr>"
      by (simp add: s service_entry_def)
  qed
  show "\<forall>w. hd (fst (generate_docker_compose cfg ports write_file w))
                  = WriteFile (DOCKER_COMPOSE_FILE cfg) (compose_dict cfg ports)"
    by (simp add: generate_docker_compose_def Let_def split: prod.splits option.splits)
qed

lemma billing_services:
  "cmp_services (compose_dict scaled_config billing_table)
     = [(''main'', service_entry 2 ''main'' 8000), (''billing'', service_entry 2 ''billing'' 8001)]"
  by (simp add: compose_dict_def billing_table_def scaled_config_def default_config_def)

theorem compose_has_one_service_per_route_witness:
  "distinct (map fst billing_table)
   \<and> map fst (cmp_services (compose_dict scaled_config billing_table)) = [''main'', ''billing'']
   \<and> map (\<lambda>(n, svc). dp_replicas (svc_deploy svc))
        (cmp_services (compose_dict scaled_config billing_table)) = [2, 2]
   \<and> (''billing'', 8001) \<in> set billing_table
   \<and> (\<exists>svc. map_of (cmp_services (compose_dict scaled_config billing_table)) ''billing''
               = Some svc
          \<and> dp_replicas (svc_deploy svc) = 2
          \<and> rp_max_attempts (dp_restart_policy (svc_deploy svc)) = 3
          \<and> hc_test (svc_healthcheck svc)
              = [''CMD-SHELL'', ''curl --fail http://localhost:8001/health || exit 1''])"
proof -
  have h: "distinct (map fst billing_table)" by (simp add: billing_table_def)
  have m: "(''billing'', 8001) \<in> set billing_table" by (simp add: billing_table_def)
  note t = compose_has_one_service_per_route [OF h, of scaled_config disk_ok]
  from t have "map fst (cmp_services (compose_dict scaled_config billing_table))
                 = map fst billing_table"
    by blast
  then have 1: "map fst (cmp_services (compose_dict scaled_config billing_table))
                  = [''main'', ''billing'']"
    by (simp add: billing_table_def)
  have 2: "map (\<lambda>(n, svc). dp_replicas (svc_deploy svc))
        (cmp_services (compose_dict scaled_config billing_table)) = [2, 2]"
    by (simp add: billing_services service_entry_def)
  from t [THEN conjunct2, THEN conjunct1, rule_format, OF m]
  have 3: "\<exists>svc. map_of (cmp_services (compose_dict scaled_config billing_table)) ''billing''
               = Some svc
          \<and> dp_replicas (svc_deploy svc) = 2
          \<and> rp_max_attempts (dp_restart_policy (svc_deploy svc)) = 3
          \<and> hc_test (svc_healthcheck svc)
              = [''CMD-SHELL'', ''curl --fail http://localhost:8001/health || exit 1'']"
    by (auto simp: scaled_config_def default_config_def str_eval)
  from h m 1 2 3 show ?thesis by blast
qed

section \<open>Shutdown on a failing teardown\<close>

text \<open>
  Claim C6, as amended. When stopping the fleet fails with \<^verbatim>\<open>CalledProcessError\<close>,
  \<^verbatim>\<open>stop_services\<close> logs the error and raises it again, and
  \<^verbatim>\<open>graceful_shutdown\<close> does not catch it: the exception leaves the signal handler.
  Whenever the stop command does not complete, the exception of \<^verbatim>\<open>stop_services\<close> is
  the outcome of \<^verbatim>\<open>graceful_shutdown\<close>, the line "Services stopped. Exiting..." is not
  logged and the exit call is not reached.
\<close>

theorem graceful_shutdown_propagates_stop_failure:
  "(\<forall>w'. subprocess_run [''docker-compose'', ''-f'', DOCKER_COMPOSE_FILE cfg, ''down''] w
            = (CalledProcessError, w') \<longrightarrow>
       graceful_shutdown cfg subprocess_run w
         = ([LogInfo ''Received signal to shut down. Stopping services...'',
             Run [''docker-compose'', ''-f'', DOCKER_COMPOSE_FILE cfg, ''down''],
             LogError ''Failed to stop Docker Compose services.''],
            Propagated CalledProcessError_raised, w'))
   \<and> (fst (subprocess_run [''docker-compose'', ''-f'', DOCKER_COMPOSE_FILE cfg, ''down''] w)
        \<noteq> Completed \<longrightarrow>
       (\<exists>e. fst (snd (stop_services cfg subprocess_run w)) = Some e
            \<and> fst (snd (graceful_shutdown cfg subprocess_run w)) = Propagated e)
       \<and> LogInfo ''Services stopped. Exiting...''
           \<notin> set (fst (graceful_shutdown cfg subprocess_run w)))"
  by (auto simp: graceful_shutdown_def stop_services_def Let_def
           split: prod.splits run_outcome.splits option.splits)

theorem graceful_shutdown_propagates_stop_failure_witness:
  "compose_fails [''docker-compose'', ''-f'', DOCKER_COMPOSE_FILE default_config, ''down''] ()
     = (CalledProcessError, ())
   \<and> fst (snd (graceful_shutdown default_config compose_fails ()))
       = Propagated CalledProcessError_raised
   \<and> LogInfo ''Services stopped. Exiting...''
           \<notin> set (fst (graceful_shutdown default_config compose_fails ()))"
proof -
  have h: "compose_fails [''docker-compose'', ''-f'', DOCKER_COMPOSE_FILE default_config, ''down''] ()
     = (CalledProcessError, ())"
    by (simp add: compose_fails_def)
  then have h2: "fst (compose_fails [''docker-compose'', ''-f'', DOCKER_COMPOSE_FILE default_config, ''down''] ())
     \<noteq> Completed" by simp
  note t = graceful_shutdown_propagates_stop_failure [of compose_fails default_config "()"]
  from t [THEN conjunct1, rule_format, OF h]
  have 1: "fst (snd (graceful_shutdown default_config compose_fails ()))
       = Propagated CalledProcessError_raised" by simp
  from t [THEN conjunct2, rule_format, OF h2]
  have 2: "LogInfo ''Services stopped. Exiting...''
           \<notin> set (fst (graceful_shutdown default_config compose_fails ()))" by blast
  from h 1 2 show ?thesis by blast
qed

text \<open>
  The claim as stated fails: with a stop command that exits with a non-zero status, the
  error is logged and then escalated; the shutdown handler ends with the exception and
  not with an exit.
\<close>

theorem stop_failure_escapes_shutdown:
  "graceful_shutdown default_config compose_fails ()
     = ([LogInfo ''Received signal to shut down. Stopping services...'',
         Run [''docker-compose'', ''-f'', ''docker-compose.yml'', ''down''],
         LogError ''Failed to stop Docker Compose services.''],
        Propagated CalledProcessError_raised, ())"
  by (simp add: graceful_shutdown_def stop_services_def Let_def compose_fails_def default_config_def)

section \<open>Alerts of the circuit breaker\<close>

lemma send_alert_alerts: "alerts (fst (send_alert cfg smtp_send self message w)) = 1"
  by (simp add: send_alert_def Let_def split: prod.splits option.splits)

lemma call_alerts:
  "alerts (fst (call cfg smtp_send super_call self func w)) =
     (if fst (super_call self func w) = Inl CircuitBreakerError_raised then 1 else 0)"
proof (cases "super_call self func w")
  case (fields r self' w')
  show ?thesis
  proof (cases r)
    case (Inl e)
    with fields show ?thesis
      using send_alert_alerts [of cfg smtp_send self'
              "''Circuit breaker triggered for '' @ cb_name self'
                 @ ''. Service temporarily unavailable.''" w']
      by (cases e) (auto simp: call_def Let_def split: prod.splits)
  next
    case (Inr v)
    with fields show ?thesis by (simp add: call_def)
  qed
qed

lemma call_passes_on:
  "fst (snd (call cfg smtp_send super_call self func w)) = fst (super_call self func w)
   \<and> fst (snd (snd (call cfg smtp_send super_call self func w)))
       = fst (snd (super_call self func w))"
proof (cases "super_call self func w")
  case (fields r self' w')
  show ?thesis
  proof (cases r)
    case (Inl e)
    with fields show ?thesis
      by (cases e) (auto simp: call_def Let_def split: prod.splits)
  next
    case (Inr v)
    with fields show ?thesis by (simp add: call_def)
  qed
qed

lemmas breaker_eval =
  call_def send_alert_def CircuitBreaker_attempt_def
  record_failure_def record_success_def Let_def
  failing_def mail_ok_def closed_breaker_def refusing_call_def default_config_def

text \<open>
  Claim C2, as amended. For every call through a \<^verbatim>\<open>CustomCircuitBreaker\<close>, the alert
  notifier is invoked exactly once when the call of the base class raises
  \<^verbatim>\<open>CircuitBreakerError\<close> and not at all when it returns or raises any other
  exception; the outcome of the call and the state of the breaker are those the call of
  the base class gives. Alerts follow \<^verbatim>\<open>CircuitBreakerError\<close>, not the transition from
  Closed to Open: a failing call that opens the breaker sends none unless the exception
  it passes on is a \<^verbatim>\<open>CircuitBreakerError\<close>.
\<close>

theorem breaker_alerts_once_per_rejected_call:
  "alerts (fst (call cfg smtp_send super_call self func w)) =
     (if fst (super_call self func w) = Inl CircuitBreakerError_raised then 1 else 0)
   \<and> fst (snd (call cfg smtp_send super_call self func w)) = fst (super_call self func w)
   \<and> fst (snd (snd (call cfg smtp_send super_call self func w)))
       = fst (snd (super_call self func w))"
  using call_alerts [of cfg smtp_send super_call self func w]
        call_passes_on [of cfg smtp_send super_call self func w]
  by blast

theorem breaker_alerts_once_per_rejected_call_witness:
  "fst (refusing_call open_breaker failing 10) = Inl CircuitBreakerError_raised
   \<and> alerts (fst (call default_config mail_ok refusing_call open_breaker failing 10)) = 1
   \<and> fst (CircuitBreaker_attempt (\<lambda>now. now) closed_breaker failing 2)
       = Inl (Other_raised ''connection refused'')
   \<and> alerts (fst (call default_config mail_ok (CircuitBreaker_attempt (\<lambda>now. now))
        closed_breaker failing 2)) = 0"
proof -
  have h1: "fst (refusing_call open_breaker failing 10) = Inl CircuitBreakerError_raised"
    by (simp add: refusing_call_def)
  have h2: "fst (CircuitBreaker_attempt (\<lambda>now. now) closed_breaker failing 2)
              = Inl (Other_raised ''connection refused'')"
    by (simp add: CircuitBreaker_attempt_def failing_def)
  from breaker_alerts_once_per_rejected_call
         [of default_config mail_ok refusing_call open_breaker failing 10] h1
  have 1: "alerts (fst (call default_config mail_ok refusing_call open_breaker failing 10)) = 1"
    by simp
  from breaker_alerts_once_per_rejected_call
         [of default_config mail_ok "CircuitBreaker_attempt (\<lambda>now. now)"
             closed_breaker failing 2] h2
  have 2: "alerts (fst (call default_config mail_ok (CircuitBreaker_attempt (\<lambda>now. now))
             closed_breaker failing 2)) = 0"
    by simp
  from h1 h2 1 2 show ?thesis by blast
qed

text \<open>
  The claim as stated fails at the transition itself. A Closed breaker with threshold 3
  that has counted two failures is called, at time 2, with a function that fails with an
  ordinary exception. The base class lets the call through, counts the third failure and
  opens the breaker; the exception of the function is passed on, it is not a
  \<^verbatim>\<open>CircuitBreakerError\<close>, and no alert is sent for this trip.
\<close>

theorem breaker_trip_sends_no_alert:
  "cb_state closed_breaker = Closed
   \<and> call default_config mail_ok (CircuitBreaker_attempt (\<lambda>now. now)) closed_breaker failing 2
      = ([], Inl (Other_raised ''connection refused''),
         closed_breaker\<lparr>cb_state := Open, failure_count := 3, opened_at := Some 3\<rparr>, 3)
   \<and> alerts (fst (call default_config mail_ok (CircuitBreaker_attempt (\<lambda>now. now))
        closed_breaker failing 2)) = 0"
  by (simp add: breaker_eval)


end
